theory Spec2Isabelle
  imports Main "HOL-Library.Sublist" "HOL-Library.Multiset"
begin

section \<open>The speech-recognition hook (useSpeechRecognition)\<close>

text \<open>
  The hook keeps four React state cells (\<open>isListening\<close>, \<open>error\<close>, \<open>confirmedText\<close>,
  \<open>interimText\<close>) and one ref cell (\<open>recognitionRef\<close>). They are the fields of the record
  \<open>accumulator\<close>. Every callback of the hook and every handler it registers on the
  recognition object is a function from the state in which it runs to the state after
  its updates have been applied; a callback reads the cells as of that state.

  JavaScript strings are modelled as \<open>string\<close>; only concatenation and equality with
  string literals are used on them.
\<close>

datatype jsError = TypeError | SyntaxError

text \<open>
  The types of \<open>types.ts\<close>. An alternative carries its \<open>transcript\<close> (its \<open>confidence\<close> is
  never read); a result is a list of alternatives together with \<open>isFinal\<close>; an event
  carries the result list and \<open>resultIndex\<close>.
\<close>

record speechRecognitionAlternative =
  transcript :: string

record speechRecognitionResult =
  isFinal :: bool
  alternatives :: "speechRecognitionAlternative list"

record speechRecognitionEvent =
  results :: "speechRecognitionResult list"
  resultIndex :: nat

text \<open>
  The recognition object as the hook configures it. \<open>phase\<close> records the last of
  \<open>start()\<close>, \<open>stop()\<close>, \<open>abort()\<close> that the hook called on it.
\<close>

datatype phase = Started | Stopped | Aborted

record speechRecognition =
  continuous :: bool
  interimResults :: bool
  lang :: string
  phase :: phase

record accumulator =
  isListening :: bool
  error :: "string option"
  recognitionRef :: "speechRecognition option"
  confirmedText :: string
  interimText :: string

definition fullTranscript :: "accumulator \<Rightarrow> string" where
  "fullTranscript s = confirmedText s @ interimText s"

text \<open>
  \<open>startListening\<close>. The argument \<open>supported\<close> says whether
  \<open>window.SpeechRecognition || window.webkitSpeechRecognition\<close> is defined. An object already
  held by the ref is aborted and then replaced by the new one, so it leaves the state.
\<close>

definition startListening :: "bool \<Rightarrow> accumulator \<Rightarrow> accumulator" where
  "startListening supported s =
     (let s1 = s\<lparr>error := None\<rparr> in
      if \<not> supported
      then s1\<lparr>error := Some ''Speech recognition is not supported in this browser.''\<rparr>
      else s1\<lparr>recognitionRef :=
                Some \<lparr>continuous = True, interimResults = True, lang = ''en-US'',
                      phase = Started\<rparr>\<rparr>)"

definition onstart :: "accumulator \<Rightarrow> accumulator" where
  "onstart s = s\<lparr>isListening := True\<rparr>"

definition onend :: "accumulator \<Rightarrow> accumulator" where
  "onend s = s\<lparr>isListening := False\<rparr>"

definition onerror :: "string \<Rightarrow> accumulator \<Rightarrow> accumulator" where
  "onerror errorType s =
     (let s1 = s\<lparr>isListening := False\<rparr> in
      if errorType = ''not-allowed'' \<or> errorType = ''service-not-allowed''
      then s1\<lparr>error := Some ''Microphone access denied or speech service unavailable.''\<rparr>
      else if errorType \<noteq> ''no-speech''
      then s1\<lparr>error := Some (''Error occurred: '' @ errorType)\<rparr>
      else s1)"

text \<open>
  The loop of \<open>recognition.onresult\<close>, from index \<open>i\<close> to the end of the result list.
  \<open>event.results[i][0]\<close> is \<open>undefined\<close> when the result has no alternative, and reading
  \<open>.transcript\<close> of it throws a TypeError.
\<close>

function onresult_loop ::
  "speechRecognitionResult list \<Rightarrow> nat \<Rightarrow> string \<Rightarrow> string \<Rightarrow> jsError + (string \<times> string)"
where
  "onresult_loop rs i newFinal newInterim =
     (if i < length rs then
        (if isFinal (rs ! i) then
           (case alternatives (rs ! i) of
              [] \<Rightarrow> Inl TypeError
            | a # _ \<Rightarrow> onresult_loop rs (Suc i) (newFinal @ transcript a @ '' '') newInterim)
         else
           (case alternatives (rs ! i) of
              [] \<Rightarrow> Inl TypeError
            | a # _ \<Rightarrow> onresult_loop rs (Suc i) newFinal (newInterim @ transcript a)))
      else Inr (newFinal, newInterim))"
  by pat_completeness auto
termination
  by (relation "measure (\<lambda>(rs, i, _, _). length rs - i)") auto

declare onresult_loop.simps [simp del]

text \<open>
  \<open>recognition.onresult\<close>. The state setters run after the loop, so an exception thrown
  in the loop leaves the state as it was; the empty string \<open>newFinal\<close> is falsy.
\<close>

definition onresult :: "speechRecognitionEvent \<Rightarrow> accumulator \<Rightarrow> jsError + accumulator" where
  "onresult event s =
     (case onresult_loop (results event) (resultIndex event) '''' '''' of
        Inl e \<Rightarrow> Inl e
      | Inr (newFinal, newInterim) \<Rightarrow>
          Inr ((if newFinal \<noteq> '''' then s\<lparr>confirmedText := confirmedText s @ newFinal\<rparr> else s)
                 \<lparr>interimText := newInterim\<rparr>))"

definition stopListening :: "accumulator \<Rightarrow> accumulator" where
  "stopListening s =
     (case recognitionRef s of
        None \<Rightarrow> s
      | Some r \<Rightarrow>
          s\<lparr>recognitionRef := Some (r\<lparr>phase := Stopped\<rparr>),
            confirmedText := confirmedText s @ interimText s,
            interimText := ''''\<rparr>)"

definition resetTranscript :: "accumulator \<Rightarrow> accumulator" where
  "resetTranscript s =
     (let s1 = s\<lparr>confirmedText := '''', interimText := ''''\<rparr>;
          s2 = (case recognitionRef s1 of
                  None \<Rightarrow> s1
                | Some r \<Rightarrow> s1\<lparr>recognitionRef := Some (r\<lparr>phase := Aborted\<rparr>)\<rparr>)
      in s2\<lparr>isListening := False\<rparr>)"

definition setTranscript :: "string \<Rightarrow> accumulator \<Rightarrow> accumulator" where
  "setTranscript text s = s\<lparr>confirmedText := text, interimText := ''''\<rparr>"

text \<open>The state of the hook at its first render.\<close>

definition initialState :: accumulator where
  "initialState =
     \<lparr>isListening = False, error = None, recognitionRef = None,
      confirmedText = '''', interimText = ''''\<rparr>"

text \<open>
  Everything that can happen to the hook: a call of one of its four callbacks, or one of
  the four events of the recognition object. An exception thrown by the result handler
  ends that handler only.
\<close>

datatype action =
    StartListening bool
  | StopListening
  | ResetTranscript
  | SetTranscript string
  | OnStart
  | OnEnd
  | OnError string
  | OnResult speechRecognitionEvent

fun step :: "accumulator \<Rightarrow> action \<Rightarrow> accumulator" where
  "step s (StartListening supported) = startListening supported s"
| "step s StopListening = stopListening s"
| "step s ResetTranscript = resetTranscript s"
| "step s (SetTranscript text) = setTranscript text s"
| "step s OnStart = onstart s"
| "step s OnEnd = onend s"
| "step s (OnError errorType) = onerror errorType s"
| "step s (OnResult event) = (case onresult event s of Inl _ \<Rightarrow> s | Inr s' \<Rightarrow> s')"

text \<open>A sequence of result events, delivered in order.\<close>

fun onresults :: "speechRecognitionEvent list \<Rightarrow> accumulator \<Rightarrow> accumulator" where
  "onresults [] s = s"
| "onresults (event # events) s = onresults events (step s (OnResult event))"

section \<open>The document store (storageService)\<close>

text \<open>
  The interfaces \<open>Manuscript\<close>, \<open>Document\<close> and \<open>UserSettings\<close> of \<open>types.ts\<close>. Timestamps are
  the integers that \<open>Date.now()\<close> returns; the optional \<open>manuscriptId\<close> is \<open>None\<close> when the
  property is absent. Both \<open>Manuscript\<close> and \<open>Document\<close> have the fields \<open>id\<close>, \<open>title\<close>,
  \<open>createdAt\<close> and \<open>updatedAt\<close>; the ones of a manuscript carry the prefix \<open>m_\<close> here, and
  the \<open>id\<close> of a document is \<open>doc_id\<close>.
\<close>

record manuscript =
  m_id :: string
  m_title :: string
  m_createdAt :: int
  m_updatedAt :: int

record document =
  doc_id :: string
  manuscriptId :: "string option"
  title :: string
  rawText :: string
  polishedText :: string
  tags :: "string list"
  createdAt :: int
  updatedAt :: int

record userSettings =
  userName :: string
  hasCompletedOnboarding :: bool

text \<open>
  The string that \<open>localStorage\<close> holds under a key is identified with what the getters
  make of it: \<open>Parsed v\<close> is the text \<open>JSON.stringify(v)\<close>, which \<open>JSON.parse\<close> turns back into
  \<open>v\<close>; \<open>Unparseable\<close> is a string from which the getters obtain no value (the empty
  string, which is falsy, or a string on which \<open>JSON.parse\<close> throws). The value under a key
  has the type that the getter of that key declares. \<open>localStorage\<close> has one field for
  each of the three keys, \<open>None\<close> when \<open>getItem\<close> returns \<open>null\<close>; \<open>getItem\<close> and \<open>setItem\<close>
  themselves do not throw.
\<close>

datatype 'a item = Unparseable | Parsed 'a

record localStorage =
  authors_voice_docs :: "document list item option"
  authors_voice_manuscripts :: "manuscript list item option"
  authors_voice_user_settings :: "userSettings item option"

definition getUserSettings :: "localStorage \<Rightarrow> userSettings option" where
  "getUserSettings ls =
     (case authors_voice_user_settings ls of
        None \<Rightarrow> None
      | Some Unparseable \<Rightarrow> None
      | Some (Parsed settings) \<Rightarrow> Some settings)"

definition saveUserSettings :: "userSettings \<Rightarrow> localStorage \<Rightarrow> localStorage" where
  "saveUserSettings settings ls = ls\<lparr>authors_voice_user_settings := Some (Parsed settings)\<rparr>"

definition getManuscripts :: "localStorage \<Rightarrow> manuscript list" where
  "getManuscripts ls =
     (case authors_voice_manuscripts ls of
        None \<Rightarrow> []
      | Some Unparseable \<Rightarrow> []
      | Some (Parsed list) \<Rightarrow> list)"

definition getDocuments :: "localStorage \<Rightarrow> document list" where
  "getDocuments ls =
     (case authors_voice_docs ls of
        None \<Rightarrow> []
      | Some Unparseable \<Rightarrow> []
      | Some (Parsed docs) \<Rightarrow> docs)"

definition deleteManuscript :: "string \<Rightarrow> localStorage \<Rightarrow> localStorage" where
  "deleteManuscript i ls =
     (let list = getManuscripts ls;
          newList = filter (\<lambda>m. m_id m \<noteq> i) list;
          ls1 = ls\<lparr>authors_voice_manuscripts := Some (Parsed newList)\<rparr>;
          docs = getDocuments ls1;
          newDocs = filter (\<lambda>doc. manuscriptId doc \<noteq> Some i) docs
      in ls1\<lparr>authors_voice_docs := Some (Parsed newDocs)\<rparr>)"

definition getDocumentsByManuscript :: "string option \<Rightarrow> localStorage \<Rightarrow> document list" where
  "getDocumentsByManuscript mid ls = filter (\<lambda>doc. manuscriptId doc = mid) (getDocuments ls)"

text \<open>\<open>Array.prototype.findIndex\<close>: the first index at which the predicate holds, or \<open>-1\<close>.\<close>

fun findIndex_from :: "('a \<Rightarrow> bool) \<Rightarrow> 'a list \<Rightarrow> int \<Rightarrow> int" where
  "findIndex_from p [] i = - 1"
| "findIndex_from p (x # xs) i = (if p x then i else findIndex_from p xs (i + 1))"

definition findIndex :: "('a \<Rightarrow> bool) \<Rightarrow> 'a list \<Rightarrow> int" where
  "findIndex p xs = findIndex_from p xs 0"

text \<open>
  \<open>saveDocument\<close>. \<open>t1\<close> is what \<open>Date.now()\<close> returns for \<open>updatedAt\<close>, \<open>t2\<close> what it
  returns in the branch of a new document. The result is the returned document and the
  store after the call.
\<close>

definition saveDocument :: "int \<Rightarrow> int \<Rightarrow> document \<Rightarrow> localStorage \<Rightarrow> document \<times> localStorage" where
  "saveDocument t1 t2 doc ls =
     (let docs = getDocuments ls;
          index = findIndex (\<lambda>d. doc_id d = doc_id doc) docs;
          updatedDoc = doc\<lparr>updatedAt := t1\<rparr>
      in if index \<ge> 0
         then (updatedDoc, ls\<lparr>authors_voice_docs := Some (Parsed (docs[nat index := updatedDoc]))\<rparr>)
         else (let updatedDoc' = updatedDoc\<lparr>createdAt := t2\<rparr>
               in (updatedDoc', ls\<lparr>authors_voice_docs := Some (Parsed (docs @ [updatedDoc']))\<rparr>)))"

definition deleteDocument :: "string \<Rightarrow> localStorage \<Rightarrow> localStorage" where
  "deleteDocument i ls =
     ls\<lparr>authors_voice_docs := Some (Parsed (filter (\<lambda>d. doc_id d \<noteq> i) (getDocuments ls)))\<rparr>"

definition getDocument :: "string \<Rightarrow> localStorage \<Rightarrow> document option" where
  "getDocument i ls = List.find (\<lambda>d. doc_id d = i) (getDocuments ls)"

subsection \<open>Backup and restore\<close>

record backupData =
  manuscripts :: "manuscript list"
  documents :: "document list"
  userSettings :: "userSettings option"
  version :: int
  timestamp :: int

text \<open>
  The text of a backup is identified with what \<open>restoreBackup\<close> can learn from it.
  \<open>Malformed\<close> is a text on which \<open>JSON.parse\<close> throws. A parsed value is \<open>JNull\<close> (reading a
  property of it throws) or any other value, seen through its properties: \<open>manuscripts_prop\<close>
  and \<open>documents_prop\<close> are \<open>Some xs\<close> when the property is an array \<open>xs\<close> and \<open>None\<close> when it
  is missing or is not an array; \<open>userSettings_prop\<close> is \<open>Some u\<close> when the property is truthy
  and \<open>None\<close> when it is \<open>null\<close> or missing. A number, a string, a boolean or an array is a
  value all of whose properties are \<open>None\<close>.
\<close>

record parsedValue =
  manuscripts_prop :: "manuscript list option"
  documents_prop :: "document list option"
  userSettings_prop :: "userSettings option"
  version_prop :: "int option"
  timestamp_prop :: "int option"

datatype parsed = JNull | JValue parsedValue

datatype jsonText = Malformed | Json parsed

definition JSON_parse :: "jsonText \<Rightarrow> jsError + parsed" where
  "JSON_parse text = (case text of Malformed \<Rightarrow> Inl SyntaxError | Json v \<Rightarrow> Inr v)"

definition JSON_stringify :: "backupData \<Rightarrow> jsonText" where
  "JSON_stringify data =
     Json (JValue \<lparr>manuscripts_prop = Some (manuscripts data),
                   documents_prop = Some (documents data),
                   userSettings_prop = userSettings data,
                   version_prop = Some (version data),
                   timestamp_prop = Some (timestamp data)\<rparr>)"

definition createBackup :: "int \<Rightarrow> localStorage \<Rightarrow> jsonText" where
  "createBackup now ls =
     JSON_stringify \<lparr>manuscripts = getManuscripts ls, documents = getDocuments ls,
                     userSettings = getUserSettings ls, version = 1, timestamp = now\<rparr>"

text \<open>
  \<open>restoreBackup\<close>: the result and the store after the call. Both the SyntaxError of
  \<open>JSON.parse\<close> and the TypeError of reading \<open>data.manuscripts\<close> of \<open>null\<close> end in the
  \<open>catch\<close> block.
\<close>

definition restoreBackup :: "jsonText \<Rightarrow> localStorage \<Rightarrow> bool \<times> localStorage" where
  "restoreBackup jsonData ls =
     (case JSON_parse jsonData of
        Inl e \<Rightarrow> (False, ls)
      | Inr JNull \<Rightarrow> (False, ls)
      | Inr (JValue data) \<Rightarrow>
          (case (manuscripts_prop data, documents_prop data) of
             (Some ms, Some ds) \<Rightarrow>
               (let ls1 = ls\<lparr>authors_voice_manuscripts := Some (Parsed ms)\<rparr>;
                    ls2 = ls1\<lparr>authors_voice_docs := Some (Parsed ds)\<rparr>;
                    ls3 = (case userSettings_prop data of
                             Some u \<Rightarrow> ls2\<lparr>authors_voice_user_settings := Some (Parsed u)\<rparr>
                           | None \<Rightarrow> ls2)
                in (True, ls3))
           | _ \<Rightarrow> (False, ls)))"

subsection \<open>Compiling a manuscript\<close>

definition newline :: char where
  "newline = CHR 0x0A"

text \<open>
  \<open>Array.prototype.sort\<close> is stable, and the comparator is the difference of two integer
  timestamps, so the sorted array is the stable ascending sort by \<open>createdAt\<close>.
\<close>

definition compileManuscript :: "string \<Rightarrow> localStorage \<Rightarrow> string" where
  "compileManuscript mid ls =
     (case List.find (\<lambda>m. m_id m = mid) (getManuscripts ls) of
        None \<Rightarrow> ''''
      | Some manuscript \<Rightarrow>
          (let chapters = sort_key createdAt (getDocumentsByManuscript (Some mid) ls)
           in concat (map (\<lambda>chapter.
                 let content = (if polishedText chapter \<noteq> '''' then polishedText chapter
                                else if rawText chapter \<noteq> '''' then rawText chapter
                                else '''')
                 in ''--- '' @ title chapter @ '' ---'' @ [newline, newline] @ content
                      @ [newline, newline]) chapters)))"

section \<open>Vocabulary of the properties\<close>

text \<open>
  The window of an event is the part of its result list from \<open>resultIndex\<close> on. A slot has
  text when it has a first alternative; an event is well formed when every slot of its
  window has text. \<open>finalSegments\<close> is the text of the final slots of the window, each
  followed by one space; \<open>interimSegments\<close> is the text of its interim slots.
\<close>

definition window :: "speechRecognitionEvent \<Rightarrow> speechRecognitionResult list" where
  "window event = drop (resultIndex event) (results event)"

definition hasText :: "speechRecognitionResult \<Rightarrow> bool" where
  "hasText r = (alternatives r \<noteq> [])"

definition slotText :: "speechRecognitionResult \<Rightarrow> string" where
  "slotText r = (case alternatives r of [] \<Rightarrow> '''' | a # _ \<Rightarrow> transcript a)"

definition wellFormed :: "speechRecognitionEvent \<Rightarrow> bool" where
  "wellFormed event = list_all hasText (window event)"

definition finalSegments :: "speechRecognitionEvent \<Rightarrow> string" where
  "finalSegments event = concat (map (\<lambda>r. slotText r @ '' '') (filter isFinal (window event)))"

definition interimSegments :: "speechRecognitionEvent \<Rightarrow> string" where
  "interimSegments event = concat (map slotText (filter (\<lambda>r. \<not> isFinal r) (window event)))"

text \<open>
  The interim text as the specification words it: the text of the last interim slot of
  the window, if there is one.
\<close>

definition spec_lastInterim :: "speechRecognitionEvent \<Rightarrow> string option" where
  "spec_lastInterim event =
     (case filter (\<lambda>r. \<not> isFinal r) (window event) of
        [] \<Rightarrow> None
      | r # rs \<Rightarrow> Some (slotText (last (r # rs))))"

text \<open>
  The titled block of a chapter as the specification words it: the polished text when
  it is not empty, the raw text otherwise.
\<close>

definition titledBlock :: "document \<Rightarrow> string" where
  "titledBlock chapter =
     ''--- '' @ title chapter @ '' ---'' @ [newline, newline] @
     (if polishedText chapter \<noteq> '''' then polishedText chapter else rawText chapter) @
     [newline, newline]"

text \<open>
  A backup text that \<open>restoreBackup\<close> has to reject: it does not parse, or the parsed value
  has no \<open>manuscripts\<close> array or no \<open>documents\<close> array.
\<close>

definition malformedBackup :: "jsonText \<Rightarrow> bool" where
  "malformedBackup text =
     (case text of
        Malformed \<Rightarrow> True
      | Json JNull \<Rightarrow> True
      | Json (JValue data) \<Rightarrow> manuscripts_prop data = None \<or> documents_prop data = None)"

section \<open>Example inputs\<close>

definition interimSlot :: "string \<Rightarrow> speechRecognitionResult" where
  "interimSlot t = \<lparr>isFinal = False, alternatives = [\<lparr>transcript = t\<rparr>]\<rparr>"

definition finalSlot :: "string \<Rightarrow> speechRecognitionResult" where
  "finalSlot t = \<lparr>isFinal = True, alternatives = [\<lparr>transcript = t\<rparr>]\<rparr>"

definition helloWor :: speechRecognitionEvent where
  "helloWor = \<lparr>results = [interimSlot ''hello wor''], resultIndex = 0\<rparr>"

definition helloWorld :: speechRecognitionEvent where
  "helloWorld = \<lparr>results = [finalSlot ''hello world''], resultIndex = 0\<rparr>"

definition twoInterims :: speechRecognitionEvent where
  "twoInterims = \<lparr>results = [finalSlot ''so'', interimSlot ''hello '', interimSlot ''wor''],
                   resultIndex = 1\<rparr>"

definition listening :: accumulator where
  "listening = onstart (startListening True initialState)"

definition dictating :: accumulator where
  "dictating = onresults [helloWor] listening"

definition emptyStorage :: localStorage where
  "emptyStorage = \<lparr>authors_voice_docs = None, authors_voice_manuscripts = None,
                    authors_voice_user_settings = None\<rparr>"

definition mkDocument :: "string \<Rightarrow> string option \<Rightarrow> string \<Rightarrow> string \<Rightarrow> string \<Rightarrow> int \<Rightarrow> document" where
  "mkDocument i mid t raw polished created =
     \<lparr>doc_id = i, manuscriptId = mid, title = t, rawText = raw, polishedText = polished,
      tags = [], createdAt = created, updatedAt = created\<rparr>"

definition library :: localStorage where
  "library =
     \<lparr>authors_voice_docs = Some (Parsed
        [mkDocument ''d1'' (Some ''m1'') ''A'' ''a raw'' ''a polished'' 300,
         mkDocument ''d2'' (Some ''m1'') ''B'' ''b raw'' '''' 100,
         mkDocument ''d3'' None ''Note'' ''n raw'' '''' 150,
         mkDocument ''d4'' (Some ''m1'') ''C'' ''c raw'' ''c polished'' 200,
         mkDocument ''d5'' (Some ''m2'') ''Other'' ''o raw'' '''' 50]),
      authors_voice_manuscripts = Some (Parsed
        [\<lparr>m_id = ''m1'', m_title = ''Book'', m_createdAt = 10, m_updatedAt = 10\<rparr>,
         \<lparr>m_id = ''m2'', m_title = ''Other book'', m_createdAt = 20, m_updatedAt = 20\<rparr>]),
      authors_voice_user_settings = Some (Parsed
        \<lparr>userName = ''Ann'', hasCompletedOnboarding = True\<rparr>)\<rparr>"

text \<open>
  A backup text without a \<open>documents\<close> field, such as \<open>{"manuscripts": [], "version": 1}\<close>.
\<close>

definition noDocuments :: jsonText where
  "noDocuments = Json (JValue \<lparr>manuscripts_prop = Some [], documents_prop = None,
                               userSettings_prop = None, version_prop = Some 1,
                               timestamp_prop = None\<rparr>)"

text \<open>
  A first save of a document at time 100 and a second save of the same \<open>id\<close> at time 500.
  The second document is built as \<open>handleSaveDocument\<close> of \<open>App.tsx\<close> builds it, with
  \<open>createdAt: Date.now()\<close>.
\<close>

definition firstSave :: "document \<times> localStorage" where
  "firstSave = saveDocument 100 100 (mkDocument ''d1'' None ''Draft'' ''one'' '''' 100) emptyStorage"

definition secondSave :: "document \<times> localStorage" where
  "secondSave =
     saveDocument 500 500 (mkDocument ''d1'' None ''Draft'' ''one two'' '''' 500) (snd firstSave)"

section \<open>Properties of the speech-recognition hook\<close>

subsection \<open>Result events\<close>

lemma onresult_loop_eq:
  "list_all hasText (drop i rs) \<Longrightarrow>
   onresult_loop rs i newFinal newInterim =
     Inr (newFinal @ concat (map (\<lambda>r. slotText r @ '' '') (filter isFinal (drop i rs))),
          newInterim @ concat (map slotText (filter (\<lambda>r. \<not> isFinal r) (drop i rs))))"
proof (induction rs i newFinal newInterim rule: onresult_loop.induct)
  case (1 rs i newFinal newInterim)
  show ?case
  proof (cases "i < length rs")
    case False
    then show ?thesis by (simp add: onresult_loop.simps [of rs i])
  next
    case True
    then have d: "drop i rs = rs ! i # drop (Suc i) rs"
      by (simp add: Cons_nth_drop_Suc)
    with "1.prems" have ht: "hasText (rs ! i)" and rest: "list_all hasText (drop (Suc i) rs)"
      by simp_all
    from ht obtain a as where a: "alternatives (rs ! i) = a # as"
      by (cases "alternatives (rs ! i)") (simp_all add: hasText_def)
    show ?thesis
    proof (cases "isFinal (rs ! i)")
      case True
      with \<open>i < length rs\<close> a rest "1.IH"(1) [of a as] show ?thesis
        by (simp add: onresult_loop.simps [of rs i] d slotText_def)
    next
      case False
      with \<open>i < length rs\<close> a rest "1.IH"(2) [of a as] show ?thesis
        by (simp add: onresult_loop.simps [of rs i] d slotText_def)
    qed
  qed
qed

lemma onresult_wellFormed:
  assumes "wellFormed event"
  shows "onresult event s =
    Inr (s\<lparr>confirmedText := confirmedText s @ finalSegments event,
           interimText := interimSegments event\<rparr>)"
proof -
  from assms have "list_all hasText (drop (resultIndex event) (results event))"
    by (simp add: wellFormed_def window_def)
  from onresult_loop_eq [OF this, of "''''" "''''"]
  have "onresult_loop (results event) (resultIndex event) '''' '''' =
        Inr (finalSegments event, interimSegments event)"
    by (simp add: finalSegments_def interimSegments_def window_def)
  then show ?thesis
    by (simp add: onresult_def)
qed

lemma onresults_confirmed:
  "list_all wellFormed events \<Longrightarrow>
   confirmedText (onresults events s) = confirmedText s @ concat (map finalSegments events)"
  by (induction events arbitrary: s) (simp_all add: onresult_wellFormed)

lemma onresults_interim:
  "list_all wellFormed events \<Longrightarrow>
   interimText (onresults events s) =
     (if events = [] then interimText s else interimSegments (last events))"
  by (induction events arbitrary: s) (simp_all add: onresult_wellFormed)

lemma listening_eq:
  "listening =
     \<lparr>isListening = True, error = None,
      recognitionRef = Some \<lparr>continuous = True, interimResults = True, lang = ''en-US'',
                              phase = Started\<rparr>,
      confirmedText = '''', interimText = ''''\<rparr>"
  by (simp add: listening_def onstart_def startListening_def initialState_def)

lemma wellFormed_helloWor: "wellFormed helloWor"
  by (simp add: wellFormed_def window_def helloWor_def hasText_def interimSlot_def)

lemma wellFormed_helloWorld: "wellFormed helloWorld"
  by (simp add: wellFormed_def window_def helloWorld_def hasText_def finalSlot_def)

lemma segments_hello:
  "finalSegments helloWor = '''' \<and> interimSegments helloWor = ''hello wor'' \<and>
   finalSegments helloWorld = ''hello world '' \<and> interimSegments helloWorld = ''''"
  by (simp add: finalSegments_def interimSegments_def window_def helloWor_def helloWorld_def
      slotText_def finalSlot_def interimSlot_def)

lemma dictating_eq: "dictating = listening\<lparr>interimText := ''hello wor''\<rparr>"
  by (simp add: dictating_def onresult_wellFormed [OF wellFormed_helloWor] segments_hello
      listening_eq)

text \<open>
  Claim C1, as amended. For every result event whose window slots all have text, the
  handler appends to \<open>confirmedText\<close> the texts of the final slots of the window, each
  followed by one space, and replaces \<open>interimText\<close> by the concatenation of the texts of
  all interim slots of the window (the empty string when there is none). Hence after a
  sequence of such events \<open>confirmedText\<close> is the confirmed text from before the sequence
  followed by the final segments of all events in order, \<open>interimText\<close> is the interim text
  of the latest event, the visible transcript is the one followed by the other, and a
  further event only appends to \<open>confirmedText\<close>: a finalized segment neither disappears
  nor appears twice.
\<close>

theorem onresult_accumulates:
  assumes "wellFormed event" and "list_all wellFormed events"
  shows "onresult event s =
           Inr (s\<lparr>confirmedText := confirmedText s @ finalSegments event,
                  interimText := interimSegments event\<rparr>) \<and>
         confirmedText (onresults events s) =
           confirmedText s @ concat (map finalSegments events) \<and>
         interimText (onresults events s) =
           (if events = [] then interimText s else interimSegments (last events)) \<and>
         fullTranscript (onresults events s) =
           confirmedText s @ concat (map finalSegments events) @
           (if events = [] then interimText s else interimSegments (last events)) \<and>
         confirmedText (onresults (events @ [event]) s) =
           confirmedText (onresults events s) @ finalSegments event"
proof -
  have "list_all wellFormed (events @ [event])"
    using assms by simp
  then have "confirmedText (onresults (events @ [event]) s) =
             confirmedText s @ concat (map finalSegments (events @ [event]))"
    by (rule onresults_confirmed)
  then show ?thesis
    using assms
    by (simp add: onresult_wellFormed onresults_confirmed onresults_interim fullTranscript_def)
qed

theorem onresult_accumulates_witness:
  "wellFormed helloWorld \<and> list_all wellFormed [helloWor, helloWorld] \<and>
   confirmedText (onresults [helloWor, helloWorld] listening) = ''hello world '' \<and>
   interimText (onresults [helloWor, helloWorld] listening) = '''' \<and>
   fullTranscript (onresults [helloWor, helloWorld] listening) = ''hello world ''"
proof -
  have wf: "list_all wellFormed [helloWor, helloWorld]"
    by (simp add: wellFormed_helloWor wellFormed_helloWorld)
  have emp: "confirmedText listening = [] \<and> interimText listening = []"
    by (simp add: listening_eq)
  from onresult_accumulates [OF wellFormed_helloWorld wf, of listening]
    segments_hello emp wf wellFormed_helloWorld
  show ?thesis
    by (simp del: onresults.simps)
qed

text \<open>
  The claim as the specification states it fails on an event with two interim slots:
  the handler stores the text of both, not of the last one.
\<close>

theorem onresult_last_interim_counterexample:
  "Some (interimText (step listening (OnResult twoInterims))) \<noteq> spec_lastInterim twoInterims \<and>
   interimText (step listening (OnResult twoInterims)) = ''hello wor'' \<and>
   spec_lastInterim twoInterims = Some ''wor''"
  by (simp add: listening_eq twoInterims_def finalSlot_def interimSlot_def onresult_def
      onresult_loop.simps spec_lastInterim_def window_def slotText_def)

subsection \<open>Error events\<close>

text \<open>
  Claim C4, as amended. An error event with code \<open>not-allowed\<close> or \<open>service-not-allowed\<close>
  sets the permission error; any other code except \<open>no-speech\<close> sets the generic error
  that carries the code; the code \<open>no-speech\<close> leaves the error as it was. Every error
  event, \<open>no-speech\<close> included, sets \<open>isListening\<close> to false and changes nothing else.
\<close>

theorem onerror_channel:
  "(errorType = ''not-allowed'' \<or> errorType = ''service-not-allowed'' \<longrightarrow>
      error (onerror errorType s) =
        Some ''Microphone access denied or speech service unavailable.'') \<and>
   (errorType \<noteq> ''not-allowed'' \<and> errorType \<noteq> ''service-not-allowed'' \<and>
    errorType \<noteq> ''no-speech'' \<longrightarrow>
      error (onerror errorType s) = Some (''Error occurred: '' @ errorType)) \<and>
   onerror ''no-speech'' s = s\<lparr>isListening := False\<rparr> \<and>
   onerror errorType s = s\<lparr>isListening := False, error := error (onerror errorType s)\<rparr>"
  by (simp add: onerror_def Let_def)

theorem onerror_channel_witness:
  "error (onerror ''not-allowed'' listening) =
     Some ''Microphone access denied or speech service unavailable.'' \<and>
   error (onerror ''network'' listening) = Some ''Error occurred: network'' \<and>
   onerror ''no-speech'' dictating = dictating\<lparr>isListening := False\<rparr>"
  using onerror_channel [of "''not-allowed''" listening]
    onerror_channel [of "''network''" listening]
    onerror_channel [of "''no-speech''" dictating]
  by simp

text \<open>
  The claim as the specification states it fails: after \<open>no-speech\<close> the hook is no longer
  in the listening state.
\<close>

theorem onerror_no_speech_counterexample:
  "isListening listening \<and> \<not> isListening (onerror ''no-speech'' listening)"
  by (simp add: listening_eq onerror_def)

subsection \<open>Stop, reset and start\<close>

text \<open>
  Claim C8. In every state in which the ref holds a recognition object, that is, after
  a session has been started, \<open>stopListening\<close> appends the interim text to \<open>confirmedText\<close>,
  empties \<open>interimText\<close> and leaves the visible transcript as it was.
\<close>

theorem stopListening_folds_interim:
  "recognitionRef s \<noteq> None \<Longrightarrow>
     confirmedText (stopListening s) = confirmedText s @ interimText s \<and>
     interimText (stopListening s) = '''' \<and>
     fullTranscript (stopListening s) = fullTranscript s"
  by (auto simp: stopListening_def fullTranscript_def)

theorem stopListening_folds_interim_witness:
  "recognitionRef dictating \<noteq> None \<and> interimText dictating = ''hello wor'' \<and>
   confirmedText (stopListening dictating) = ''hello wor'' \<and>
   interimText (stopListening dictating) = '''' \<and>
   fullTranscript (stopListening dictating) = fullTranscript dictating"
  using stopListening_folds_interim [of dictating]
  by (simp add: dictating_eq listening_eq)

text \<open>
  Claim C9, as amended. After \<open>resetTranscript\<close> both text buffers are empty and
  \<open>isListening\<close> is false, whatever the state before; the error is the one from before.
\<close>

theorem resetTranscript_clears:
  "confirmedText (resetTranscript s) = '''' \<and> interimText (resetTranscript s) = '''' \<and>
   isListening (resetTranscript s) = False \<and> error (resetTranscript s) = error s"
  by (simp add: resetTranscript_def Let_def split: option.split)

theorem resetTranscript_clears_witness:
  "confirmedText (resetTranscript dictating) = '''' \<and>
   interimText (resetTranscript dictating) = '''' \<and>
   isListening (resetTranscript dictating) = False \<and>
   error (resetTranscript dictating) = None"
  using resetTranscript_clears [of dictating]
  by (simp add: dictating_eq listening_eq)

text \<open>
  The claim as the specification states it fails: an error that was set before the
  reset is still there after it.
\<close>

theorem resetTranscript_error_counterexample:
  "error (resetTranscript (onerror ''not-allowed'' listening)) \<noteq> None"
  by (simp add: resetTranscript_def onerror_def listening_eq)

lemma onresult_prefix:
  "onresult event s = Inr s' \<Longrightarrow> prefix (confirmedText s) (confirmedText s')"
  by (auto simp: onresult_def split: sum.splits prod.splits if_splits)

text \<open>
  Claim C10, as amended. \<open>startListening\<close> changes neither \<open>confirmedText\<close> nor
  \<open>interimText\<close>, so the transcript accumulated or loaded before a session is kept. Of all
  callbacks and events only \<open>resetTranscript\<close> and \<open>setTranscript\<close> can take text away from
  \<open>confirmedText\<close>: after any other one the previous \<open>confirmedText\<close> is a prefix of the new.
\<close>

theorem startListening_keeps_text:
  "confirmedText (startListening supported s) = confirmedText s \<and>
   interimText (startListening supported s) = interimText s \<and>
   fullTranscript (startListening supported s) = fullTranscript s \<and>
   (a \<noteq> ResetTranscript \<and> (\<forall>text. a \<noteq> SetTranscript text) \<longrightarrow>
      prefix (confirmedText s) (confirmedText (step s a)))"
proof -
  have "prefix (confirmedText s) (confirmedText (step s a))"
    if "a \<noteq> ResetTranscript" and "\<forall>text. a \<noteq> SetTranscript text"
  proof (cases a)
    case (OnResult event)
    then show ?thesis
      by (cases "onresult event s") (simp_all add: onresult_prefix)
  next
    case StopListening
    then show ?thesis
      by (simp add: stopListening_def split: option.split)
  qed (use that in \<open>simp_all add: startListening_def onstart_def onend_def onerror_def Let_def\<close>)
  then show ?thesis
    by (simp add: startListening_def fullTranscript_def Let_def)
qed

theorem startListening_keeps_text_witness:
  "confirmedText (startListening True (stopListening dictating)) = ''hello wor'' \<and>
   interimText (startListening True dictating) = ''hello wor'' \<and>
   prefix (confirmedText dictating) (confirmedText (step dictating StopListening))"
  using startListening_keeps_text [of True "stopListening dictating" StopListening]
    startListening_keeps_text [of True dictating StopListening]
  by (simp add: dictating_eq listening_eq stopListening_def)

text \<open>
  The claim as the specification states it fails for the interim buffer: stopping, and
  the event that finalizes the utterance, both empty it.
\<close>

theorem interim_cleared_counterexample:
  "interimText dictating = ''hello wor'' \<and>
   interimText (step dictating StopListening) = '''' \<and>
   interimText (step dictating (OnResult helloWorld)) = ''''"
  by (simp add: dictating_eq listening_eq stopListening_def
      onresult_wellFormed [OF wellFormed_helloWorld] segments_hello)

section \<open>Properties of the document store\<close>

subsection \<open>Saving a document\<close>

lemma findIndex_from_neg:
  "0 \<le> i \<Longrightarrow> findIndex_from p xs i < 0 \<longleftrightarrow> (\<forall>x\<in>set xs. \<not> p x)"
  by (induction xs arbitrary: i) auto

lemma findIndex_from_found:
  "0 \<le> i \<Longrightarrow> 0 \<le> findIndex_from p xs i \<Longrightarrow>
   \<exists>k<length xs. findIndex_from p xs i = i + int k \<and> p (xs ! k) \<and> (\<forall>j<k. \<not> p (xs ! j))"
proof (induction xs arbitrary: i)
  case Nil
  then show ?case by simp
next
  case (Cons x xs)
  show ?case
  proof (cases "p x")
    case True
    then show ?thesis by auto
  next
    case False
    with Cons.prems have "0 \<le> findIndex_from p xs (i + 1)" by simp
    with Cons.IH [of "i + 1"] Cons.prems obtain k where
      k: "k < length xs" "findIndex_from p xs (i + 1) = i + 1 + int k" "p (xs ! k)"
         "\<forall>j<k. \<not> p (xs ! j)"
      by auto
    have "\<forall>j<Suc k. \<not> p ((x # xs) ! j)"
      using False k(4) by (auto simp: nth_Cons split: nat.split)
    with k False show ?thesis
      by (intro exI [of _ "Suc k"]) simp
  qed
qed

lemma find_list_update_first:
  "k < length xs \<Longrightarrow> p y \<Longrightarrow> \<forall>j<k. \<not> p (xs ! j) \<Longrightarrow> List.find p (xs[k := y]) = Some y"
proof (induction xs arbitrary: k)
  case Nil
  then show ?case by simp
next
  case (Cons x xs)
  show ?case
  proof (cases k)
    case 0
    with Cons.prems show ?thesis by simp
  next
    case (Suc k')
    with Cons.prems have "\<not> p x" by auto
    moreover have "\<forall>j<k'. \<not> p (xs ! j)"
      using Cons.prems(3) Suc by auto
    ultimately show ?thesis
      using Cons.IH [of k'] Cons.prems Suc by simp
  qed
qed

lemma find_append_last:
  "\<forall>x\<in>set xs. \<not> p x \<Longrightarrow> p y \<Longrightarrow> List.find p (xs @ [y]) = Some y"
  by (induction xs) simp_all

text \<open>
  What a save stores, for reference: the document read back is the one returned; it is
  the argument with \<open>updatedAt\<close> set to the time of the call and, only when the \<open>id\<close> is
  new, \<open>createdAt\<close> set as well. When the \<open>id\<close> is already stored, \<open>createdAt\<close> is the one
  of the argument.
\<close>

lemma saveDocument_stored:
  "getDocument (doc_id doc) (snd (saveDocument t1 t2 doc ls)) =
     Some (fst (saveDocument t1 t2 doc ls)) \<and>
   fst (saveDocument t1 t2 doc ls) =
     doc\<lparr>createdAt := (if doc_id doc \<in> doc_id ` set (getDocuments ls)
                        then createdAt doc else t2),
         updatedAt := t1\<rparr>"
proof (cases "0 \<le> findIndex (\<lambda>d. doc_id d = doc_id doc) (getDocuments ls)")
  case True
  then obtain k where k: "k < length (getDocuments ls)"
      "findIndex (\<lambda>d. doc_id d = doc_id doc) (getDocuments ls) = int k"
      "doc_id (getDocuments ls ! k) = doc_id doc"
      "\<forall>j<k. doc_id (getDocuments ls ! j) \<noteq> doc_id doc"
    using findIndex_from_found [of 0 "\<lambda>d. doc_id d = doc_id doc" "getDocuments ls"]
    by (auto simp: findIndex_def)
  have mem: "doc_id doc \<in> doc_id ` set (getDocuments ls)"
    using k(1,3) by (metis image_eqI nth_mem)
  have "List.find (\<lambda>d. doc_id d = doc_id doc) ((getDocuments ls)[k := doc\<lparr>updatedAt := t1\<rparr>]) =
        Some (doc\<lparr>updatedAt := t1\<rparr>)"
    by (rule find_list_update_first) (use k in simp_all)
  with True k mem show ?thesis
    by (simp add: saveDocument_def getDocument_def getDocuments_def Let_def)
next
  case False
  then have none: "\<forall>d\<in>set (getDocuments ls). doc_id d \<noteq> doc_id doc"
    using findIndex_from_neg [of 0 "\<lambda>d. doc_id d = doc_id doc" "getDocuments ls"]
    by (simp add: findIndex_def)
  then have nmem: "doc_id doc \<notin> doc_id ` set (getDocuments ls)"
    by auto
  have "List.find (\<lambda>d. doc_id d = doc_id doc)
          (getDocuments ls @ [doc\<lparr>updatedAt := t1, createdAt := t2\<rparr>]) =
        Some (doc\<lparr>updatedAt := t1, createdAt := t2\<rparr>)"
    by (rule find_append_last) (use none in simp_all)
  with False nmem show ?thesis
    by (simp add: saveDocument_def getDocument_def getDocuments_def Let_def)
qed

text \<open>
  Claim C2. The claim holds for the text fields, the tags and \<open>manuscriptId\<close>, but not for
  \<open>createdAt\<close>: the first save of document \<open>d1\<close> stores \<open>createdAt = 100\<close>, and the second
  save of the same \<open>id\<close> replaces it by the \<open>createdAt = 500\<close> of its argument.
\<close>

theorem saveDocument_createdAt_overwritten:
  "map_option createdAt (getDocument ''d1'' (snd firstSave)) = Some 100 \<and>
   map_option createdAt (getDocument ''d1'' (snd secondSave)) = Some 500 \<and>
   map_option rawText (getDocument ''d1'' (snd secondSave)) = Some ''one two''"
  by (simp add: firstSave_def secondSave_def saveDocument_def getDocument_def getDocuments_def
      findIndex_def mkDocument_def emptyStorage_def Let_def)

subsection \<open>Deleting a manuscript\<close>

lemma getDocuments_deleteManuscript:
  "getDocuments (deleteManuscript i ls) =
     filter (\<lambda>doc. manuscriptId doc \<noteq> Some i) (getDocuments ls)"
  by (simp add: deleteManuscript_def getDocuments_def Let_def)

lemma getManuscripts_deleteManuscript:
  "getManuscripts (deleteManuscript i ls) = filter (\<lambda>m. m_id m \<noteq> i) (getManuscripts ls)"
  by (simp add: deleteManuscript_def getManuscripts_def Let_def)

text \<open>
  Claim C3. After \<open>deleteManuscript i\<close> the store holds no manuscript with id \<open>i\<close> and no
  document whose \<open>manuscriptId\<close> is \<open>i\<close>; the documents with another \<open>manuscriptId\<close> or with
  none are the same as before, in the same order, and so are the manuscripts with another
  id and the user settings.
\<close>

theorem deleteManuscript_cascade:
  "(\<forall>m\<in>set (getManuscripts (deleteManuscript i ls)). m_id m \<noteq> i) \<and>
   (\<forall>doc\<in>set (getDocuments (deleteManuscript i ls)). manuscriptId doc \<noteq> Some i) \<and>
   filter (\<lambda>doc. manuscriptId doc \<noteq> Some i) (getDocuments (deleteManuscript i ls)) =
     filter (\<lambda>doc. manuscriptId doc \<noteq> Some i) (getDocuments ls) \<and>
   filter (\<lambda>m. m_id m \<noteq> i) (getManuscripts (deleteManuscript i ls)) =
     filter (\<lambda>m. m_id m \<noteq> i) (getManuscripts ls) \<and>
   authors_voice_user_settings (deleteManuscript i ls) = authors_voice_user_settings ls"
  by (simp add: getDocuments_deleteManuscript getManuscripts_deleteManuscript)
    (simp add: deleteManuscript_def Let_def)

theorem deleteManuscript_cascade_witness:
  "map doc_id (getDocuments (deleteManuscript ''m1'' library)) = [''d3'', ''d5''] \<and>
   map manuscriptId (getDocuments (deleteManuscript ''m1'' library)) = [None, Some ''m2''] \<and>
   map m_id (getManuscripts (deleteManuscript ''m1'' library)) = [''m2'']"
proof -
  note cascade = deleteManuscript_cascade [of "''m1''" library]
  from cascade have
    "\<forall>doc\<in>set (getDocuments (deleteManuscript ''m1'' library)). manuscriptId doc \<noteq> Some ''m1''"
    by blast
  then have
    "filter (\<lambda>doc. manuscriptId doc \<noteq> Some ''m1'') (getDocuments (deleteManuscript ''m1'' library)) =
       getDocuments (deleteManuscript ''m1'' library)"
    by (simp only: filter_id_conv)
  moreover from cascade have
    "filter (\<lambda>doc. manuscriptId doc \<noteq> Some ''m1'') (getDocuments (deleteManuscript ''m1'' library)) =
       filter (\<lambda>doc. manuscriptId doc \<noteq> Some ''m1'') (getDocuments library)"
    by blast
  ultimately have "getDocuments (deleteManuscript ''m1'' library) =
      filter (\<lambda>doc. manuscriptId doc \<noteq> Some ''m1'') (getDocuments library)"
    by simp
  then have docs: "getDocuments (deleteManuscript ''m1'' library) =
      [mkDocument ''d3'' None ''Note'' ''n raw'' '''' 150,
       mkDocument ''d5'' (Some ''m2'') ''Other'' ''o raw'' '''' 50]"
    by (simp add: getDocuments_def library_def mkDocument_def)
  from cascade have
    "\<forall>m\<in>set (getManuscripts (deleteManuscript ''m1'' library)). m_id m \<noteq> ''m1''"
    by blast
  then have
    "filter (\<lambda>m. m_id m \<noteq> ''m1'') (getManuscripts (deleteManuscript ''m1'' library)) =
       getManuscripts (deleteManuscript ''m1'' library)"
    by (simp only: filter_id_conv)
  moreover from cascade have
    "filter (\<lambda>m. m_id m \<noteq> ''m1'') (getManuscripts (deleteManuscript ''m1'' library)) =
       filter (\<lambda>m. m_id m \<noteq> ''m1'') (getManuscripts library)"
    by blast
  ultimately have "getManuscripts (deleteManuscript ''m1'' library) =
      filter (\<lambda>m. m_id m \<noteq> ''m1'') (getManuscripts library)"
    by simp
  then have "map m_id (getManuscripts (deleteManuscript ''m1'' library)) = [''m2'']"
    by (simp add: getManuscripts_def library_def)
  with docs show ?thesis
    by (simp add: mkDocument_def)
qed

subsection \<open>Compiling a manuscript\<close>

lemma find_None_image: "List.find (\<lambda>m. f m = k) xs = None \<longleftrightarrow> k \<notin> f ` set xs"
  by (auto simp: find_None_iff)

lemma compileManuscript_blocks:
  "k \<in> m_id ` set (getManuscripts ls) \<Longrightarrow>
   compileManuscript k ls =
     concat (map titledBlock (sort_key createdAt (getDocumentsByManuscript (Some k) ls)))"
proof -
  assume "k \<in> m_id ` set (getManuscripts ls)"
  then have "List.find (\<lambda>m. m_id m = k) (getManuscripts ls) \<noteq> None"
    by (simp add: find_None_image)
  then obtain m where "List.find (\<lambda>m. m_id m = k) (getManuscripts ls) = Some m"
    by auto
  moreover have "(\<lambda>chapter. let content = (if polishedText chapter \<noteq> '''' then polishedText chapter
                                else if rawText chapter \<noteq> '''' then rawText chapter
                                else '''')
                 in ''--- '' @ title chapter @ '' ---'' @ [newline, newline] @ content
                      @ [newline, newline]) = titledBlock"
    by (rule ext) (simp add: titledBlock_def Let_def)
  ultimately show ?thesis
    by (simp add: compileManuscript_def Let_def)
qed

text \<open>
  Claim C5. \<open>compileManuscript\<close> yields the empty string when no manuscript has the given
  id. Otherwise the result is the concatenation of the titled blocks (polished text when
  not empty, raw text otherwise) of a list of chapters that consists of exactly the
  documents of that manuscript, is in ascending order of \<open>createdAt\<close>, and keeps chapters
  of equal \<open>createdAt\<close> in their stored order.
\<close>

theorem compileManuscript_ordered:
  "(k \<notin> m_id ` set (getManuscripts ls) \<longrightarrow> compileManuscript k ls = '''') \<and>
   (k \<in> m_id ` set (getManuscripts ls) \<longrightarrow>
      (\<exists>chapters.
         compileManuscript k ls = concat (map titledBlock chapters) \<and>
         mset chapters = mset (filter (\<lambda>doc. manuscriptId doc = Some k) (getDocuments ls)) \<and>
         sorted (map createdAt chapters) \<and>
         (\<forall>t. filter (\<lambda>doc. createdAt doc = t) chapters =
              filter (\<lambda>doc. createdAt doc = t)
                (filter (\<lambda>doc. manuscriptId doc = Some k) (getDocuments ls)))))"
proof (intro conjI impI)
  assume "k \<notin> m_id ` set (getManuscripts ls)"
  then have "List.find (\<lambda>m. m_id m = k) (getManuscripts ls) = None"
    by (simp add: find_None_image)
  then show "compileManuscript k ls = ''''"
    by (simp add: compileManuscript_def)
next
  assume "k \<in> m_id ` set (getManuscripts ls)"
  then have "compileManuscript k ls =
     concat (map titledBlock (sort_key createdAt (getDocumentsByManuscript (Some k) ls)))"
    by (rule compileManuscript_blocks)
  then show "\<exists>chapters.
         compileManuscript k ls = concat (map titledBlock chapters) \<and>
         mset chapters = mset (filter (\<lambda>doc. manuscriptId doc = Some k) (getDocuments ls)) \<and>
         sorted (map createdAt chapters) \<and>
         (\<forall>t. filter (\<lambda>doc. createdAt doc = t) chapters =
              filter (\<lambda>doc. createdAt doc = t)
                (filter (\<lambda>doc. manuscriptId doc = Some k) (getDocuments ls)))"
    by (intro exI [of _ "sort_key createdAt (getDocumentsByManuscript (Some k) ls)"])
      (simp add: getDocumentsByManuscript_def sort_key_stable)
qed

theorem compileManuscript_ordered_witness:
  "''m1'' \<in> m_id ` set (getManuscripts library) \<and>
   ''m9'' \<notin> m_id ` set (getManuscripts library) \<and>
   compileManuscript ''m9'' library = '''' \<and>
   compileManuscript ''m1'' library =
     ''--- B ---'' @ [newline, newline] @ ''b raw'' @ [newline, newline] @
     ''--- C ---'' @ [newline, newline] @ ''c polished'' @ [newline, newline] @
     ''--- A ---'' @ [newline, newline] @ ''a polished'' @ [newline, newline]"
  using compileManuscript_ordered [of "''m9''" library]
    compileManuscript_ordered [of "''m1''" library]
  by (simp add: compileManuscript_def getManuscripts_def getDocumentsByManuscript_def
      getDocuments_def library_def mkDocument_def Let_def)

subsection \<open>Backup and restore\<close>

lemma restoreBackup_accepts:
  "\<not> malformedBackup blob \<Longrightarrow> fst (restoreBackup blob ls) = True"
  by (auto simp: malformedBackup_def restoreBackup_def JSON_parse_def Let_def
      split: jsonText.splits parsed.splits option.splits)

text \<open>
  Claim C6. When the backup text does not parse, or the parsed value lacks the
  \<open>manuscripts\<close> array or the \<open>documents\<close> array, \<open>restoreBackup\<close> returns false and the store
  after the call is the store before it, in all three entries.
\<close>

theorem restoreBackup_rejects:
  "malformedBackup blob \<Longrightarrow> restoreBackup blob ls = (False, ls)"
  by (auto simp: malformedBackup_def restoreBackup_def JSON_parse_def
      split: jsonText.splits parsed.splits option.splits)

theorem restoreBackup_rejects_witness:
  "malformedBackup noDocuments \<and> restoreBackup noDocuments library = (False, library) \<and>
   malformedBackup Malformed \<and> restoreBackup Malformed library = (False, library)"
  using restoreBackup_rejects [of noDocuments library] restoreBackup_rejects [of Malformed library]
  by (simp add: malformedBackup_def noDocuments_def)

text \<open>
  Claim C7. For every store, \<open>restoreBackup\<close> applied to what \<open>createBackup\<close> has just
  returned reports success, and afterwards the manuscripts, the documents and the user
  settings read from the store are the ones read before.
\<close>

theorem createBackup_restoreBackup:
  "fst (restoreBackup (createBackup now ls) ls) = True \<and>
   getManuscripts (snd (restoreBackup (createBackup now ls) ls)) = getManuscripts ls \<and>
   getDocuments (snd (restoreBackup (createBackup now ls) ls)) = getDocuments ls \<and>
   getUserSettings (snd (restoreBackup (createBackup now ls) ls)) = getUserSettings ls"
  by (simp add: restoreBackup_def createBackup_def JSON_stringify_def JSON_parse_def Let_def
      getManuscripts_def getDocuments_def getUserSettings_def
      split: option.split item.split)

theorem createBackup_restoreBackup_witness:
  "restoreBackup (createBackup 1000 library) library = (True, library) \<and>
   fst (restoreBackup (createBackup 1000 emptyStorage) emptyStorage) = True \<and>
   getDocuments (snd (restoreBackup (createBackup 1000 emptyStorage) emptyStorage)) = []"
  using createBackup_restoreBackup [of 1000 library]
    createBackup_restoreBackup [of 1000 emptyStorage]
  by (simp add: restoreBackup_def createBackup_def JSON_stringify_def JSON_parse_def Let_def
      getManuscripts_def getDocuments_def getUserSettings_def library_def emptyStorage_def)

end
